theory Spec2Isabelle
  imports Main "HOL-Library.Word"
begin

section \<open>Go values used by the commit pipeline\<close>

text \<open>
  A Go slice is \<open>None\<close> when it is \<open>nil\<close> and \<open>Some xs\<close> otherwise; \<open>len\<close> is
  zero for both \<open>nil\<close> and the empty slice. A Go map used as a set
  (\<open>map[K]struct{}\<close>) is a set option, a string map is a partial function option,
  \<open>None\<close> again standing for \<open>nil\<close>.
\<close>

type_synonym bytes = "8 word list"

definition len :: "'a list option \<Rightarrow> nat" where
  "len s = (case s of None \<Rightarrow> 0 | Some xs \<Rightarrow> length xs)"

text \<open>\<open>len(m) == 0\<close> for a Go map used as a set: the map is \<open>nil\<close> or has no key.\<close>

definition no_keys :: "'a set option \<Rightarrow> bool" where
  "no_keys s = (case s of None \<Rightarrow> True | Some xs \<Rightarrow> xs = {})"

definition elems :: "'a list option \<Rightarrow> 'a list" where
  "elems s = (case s of None \<Rightarrow> [] | Some xs \<Rightarrow> xs)"

text \<open>
  \<open>runtime.GOOS\<close> and \<open>strings.ToUpper\<close> belong to the Go runtime and library; the
  merge takes them as a parameter.
\<close>

record platform =
  GOOS :: string
  ToUpper :: "string \<Rightarrow> string"

text \<open>\<open>strings.Split(s, "=")\<close> for the one-byte separator the merge uses.\<close>

fun Split :: "string \<Rightarrow> char \<Rightarrow> string list" where
  "Split [] sep = [[]]"
| "Split (c # cs) sep =
     (if c = sep then [] # Split cs sep
      else (case Split cs sep of
              [] \<Rightarrow> [[c]]
            | w # ws \<Rightarrow> (c # w) # ws))"

section \<open>Container configuration and its merge\<close>

record HealthConfig =
  Test :: "string list option"
  Interval :: "64 word"
  Timeout :: "64 word"
  Retries :: int

record Config =
  User :: string
  ExposedPorts :: "string set option"
  Env :: "string list option"
  Labels :: "(string \<rightharpoonup> string) option"
  Entrypoint :: "string list option"
  Cmd :: "string list option"
  ArgsEscaped :: bool
  Healthcheck :: "HealthConfig option"
  WorkingDir :: string
  Volumes :: "string set option"
  StopSignal :: string

text \<open>
  The inner loop of the environment merge (the \<open>range userConf.Env\<close> loop with its
  \<open>break\<close>). On Windows \<open>imageEnvKey\<close> is overwritten with its upper-case form in
  every iteration, so the next iteration upper-cases it again.
\<close>

fun env_found :: "platform \<Rightarrow> string \<Rightarrow> string list \<Rightarrow> bool" where
  "env_found p imageEnvKey [] = False"
| "env_found p imageEnvKey (userEnv # rest) =
     (let userEnvKey = hd (Split userEnv (CHR ''=''));
          imageEnvKey' = (if GOOS p = ''windows'' then ToUpper p imageEnvKey else imageEnvKey);
          userEnvKey' = (if GOOS p = ''windows'' then ToUpper p userEnvKey else userEnvKey)
      in if imageEnvKey' = userEnvKey' then True
         else env_found p imageEnvKey' rest)"

text \<open>
  The outer loop over \<open>imageConf.Env\<close>. The inner loop ranges over
  \<open>userConf.Env\<close> as it is at that moment, entries appended by earlier iterations
  included.
\<close>

fun env_append :: "platform \<Rightarrow> string list \<Rightarrow> string list \<Rightarrow> string list" where
  "env_append p userEnv [] = userEnv"
| "env_append p userEnv (imageEnv # rest) =
     (let imageEnvKey = hd (Split imageEnv (CHR ''=''))
      in if env_found p imageEnvKey userEnv then env_append p userEnv rest
         else env_append p (userEnv @ [imageEnv]) rest)"

definition merge_User :: "Config \<Rightarrow> Config \<Rightarrow> Config" where
  "merge_User userConf imageConf =
     (if User userConf = [] then userConf\<lparr>User := User imageConf\<rparr> else userConf)"

text \<open>
  The loops over Go maps add the image's keys that the user map lacks; their result
  does not depend on the iteration order and is written as the union (for the string
  map: the image map overridden by the user map).
\<close>

definition merge_ExposedPorts :: "Config \<Rightarrow> Config \<Rightarrow> Config" where
  "merge_ExposedPorts userConf imageConf =
     (if no_keys (ExposedPorts userConf)
      then userConf\<lparr>ExposedPorts := ExposedPorts imageConf\<rparr>
      else (case (ExposedPorts userConf, ExposedPorts imageConf) of
              (Some up, Some ip) \<Rightarrow> userConf\<lparr>ExposedPorts := Some (up \<union> ip)\<rparr>
            | _ \<Rightarrow> userConf))"

definition merge_Env :: "platform \<Rightarrow> Config \<Rightarrow> Config \<Rightarrow> Config" where
  "merge_Env p userConf imageConf =
     (if len (Env userConf) = 0 then userConf\<lparr>Env := Env imageConf\<rparr>
      else userConf\<lparr>Env := Some (env_append p (elems (Env userConf)) (elems (Env imageConf)))\<rparr>)"

definition merge_Labels :: "Config \<Rightarrow> Config \<Rightarrow> Config" where
  "merge_Labels userConf imageConf =
     (let ul = (case Labels userConf of None \<Rightarrow> Map.empty | Some m \<Rightarrow> m)
      in userConf\<lparr>Labels := Some (case Labels imageConf of
                                      None \<Rightarrow> ul
                                    | Some il \<Rightarrow> il ++ ul)\<rparr>)"

definition merge_Entrypoint :: "Config \<Rightarrow> Config \<Rightarrow> Config" where
  "merge_Entrypoint userConf imageConf =
     (if len (Entrypoint userConf) = 0 then
        (let u1 = (if len (Cmd userConf) = 0
                   then userConf\<lparr>Cmd := Cmd imageConf, ArgsEscaped := ArgsEscaped imageConf\<rparr>
                   else userConf)
         in if Entrypoint u1 = None then u1\<lparr>Entrypoint := Entrypoint imageConf\<rparr> else u1)
      else userConf)"

definition merge_Healthcheck :: "Config \<Rightarrow> Config \<Rightarrow> Config" where
  "merge_Healthcheck userConf imageConf =
     (case Healthcheck imageConf of
        None \<Rightarrow> userConf
      | Some ih \<Rightarrow>
          (case Healthcheck userConf of
             None \<Rightarrow> userConf\<lparr>Healthcheck := Some ih\<rparr>
           | Some uh \<Rightarrow>
               (let h1 = (if len (Test uh) = 0 then uh\<lparr>Test := Test ih\<rparr> else uh);
                    h2 = (if Interval h1 = 0 then h1\<lparr>Interval := Interval ih\<rparr> else h1);
                    h3 = (if Timeout h2 = 0 then h2\<lparr>Timeout := Timeout ih\<rparr> else h2);
                    h4 = (if Retries h3 = 0 then h3\<lparr>Retries := Retries ih\<rparr> else h3)
                in userConf\<lparr>Healthcheck := Some h4\<rparr>)))"

definition merge_WorkingDir :: "Config \<Rightarrow> Config \<Rightarrow> Config" where
  "merge_WorkingDir userConf imageConf =
     (if WorkingDir userConf = [] then userConf\<lparr>WorkingDir := WorkingDir imageConf\<rparr>
      else userConf)"

definition merge_Volumes :: "Config \<Rightarrow> Config \<Rightarrow> Config" where
  "merge_Volumes userConf imageConf =
     (if no_keys (Volumes userConf) then userConf\<lparr>Volumes := Volumes imageConf\<rparr>
      else (case (Volumes userConf, Volumes imageConf) of
              (Some uv, Some iv) \<Rightarrow> userConf\<lparr>Volumes := Some (uv \<union> iv)\<rparr>
            | _ \<Rightarrow> userConf))"

definition merge_StopSignal :: "Config \<Rightarrow> Config \<Rightarrow> Config" where
  "merge_StopSignal userConf imageConf =
     (if StopSignal userConf = [] then userConf\<lparr>StopSignal := StopSignal imageConf\<rparr>
      else userConf)"

text \<open>
  \<open>merge\<close> mutates \<open>userConf\<close> field by field, in this order, and always returns
  \<open>nil\<close>; the model returns the mutated configuration.
\<close>

definition merge :: "platform \<Rightarrow> Config \<Rightarrow> Config \<Rightarrow> Config" where
  "merge p userConf imageConf =
     (let u1 = merge_User userConf imageConf;
          u2 = merge_ExposedPorts u1 imageConf;
          u3 = merge_Env p u2 imageConf;
          u4 = merge_Labels u3 imageConf;
          u5 = merge_Entrypoint u4 imageConf;
          u6 = merge_Healthcheck u5 imageConf;
          u7 = merge_WorkingDir u6 imageConf;
          u8 = merge_Volumes u7 imageConf
      in merge_StopSignal u8 imageConf)"


section \<open>Errors, panics and the world the commit acts on\<close>

text \<open>
  Every error carries its message. \<open>LibError\<close> stands for an error handed back by
  a library or collaborator call, \<open>Errorf\<close> for one made with \<open>fmt.Errorf\<close>; the
  other three are the engine's own error kinds. \<open>Error\<close> is \<open>err.Error()\<close>.
\<close>

datatype error =
    NotFoundError string
  | InternalServerError string
  | ConflictError string
  | Errorf string
  | LibError string

fun Error :: "error \<Rightarrow> string" where
  "Error (NotFoundError m) = m"
| "Error (InternalServerError m) = m"
| "Error (ConflictError m) = m"
| "Error (Errorf m) = m"
| "Error (LibError m) = m"

text \<open>A call either returns or panics (a \<open>nil\<close> pointer is dereferenced).\<close>

datatype 'a outcome = Returned 'a | Panicked

text \<open>
  \<open>models.Image\<close>, \<open>imagec.ImageWithMeta\<close>, \<open>imagec.Options\<close> and
  \<open>imagec.ImageC\<close> are declared outside the sources at hand; the records have the
  fields the commit code reads and writes. \<open>lm.ID\<close> and \<open>lm.Parent\<close> are read as
  string fields of the layer, which the literal in \<open>downloadDiff\<close> leaves at the
  zero value.
\<close>

record models_Image =
  Image_ID :: string
  Image_Parent :: string
  Image_Store :: string

record ImageWithMeta =
  ID :: string
  Parent :: string
  Image :: "models_Image option"
  DiffID :: string
  Layer_BlobSum :: string
  Meta :: string
  Size :: "64 word"

record imagec_Options =
  Reference :: "string option"

record ImageC =
  Options :: imagec_Options
  ImageLayers :: "ImageWithMeta list"
  ic_ImageID :: string

record ImageConfig =
  ImageID :: string

record event =
  action :: string
  eventType :: string
  actor_ID :: string
  actor_refName :: string

record world =
  files :: "string \<rightharpoonup> bytes"
  dirs :: "string set"
  exports :: "string list"
  layer_cache :: "string \<rightharpoonup> ImageWithMeta"
  layers_committed :: "string set"
  image_cache :: "string \<rightharpoonup> ImageConfig"
  image_cache_saved :: "string \<rightharpoonup> ImageConfig"
  repo_cache :: "string \<rightharpoonup> string"
  blobs :: "string set"
  events :: "event list"

text \<open>The export stream: the bytes it delivers and the error, if any, that ends it.\<close>

record stream =
  payload :: bytes
  read_error :: "error option"

text \<open>
  What \<open>downloadDiff\<close> takes from outside: the random layer ID, the temporary file
  name (or the failure to create it), the hash and the compressor as functions of the
  bytes they are fed, the tar headers of a decompressed archive (the sizes read before
  \<open>io.EOF\<close>, or before the error given), the errors the file operations may be
  made to return, and \<open>imagec.DestinationDirectory\<close>.
\<close>

record diff_env =
  GenerateRandomID :: string
  TempFile :: "string \<Rightarrow> error + string"
  WriteError :: "error option"
  sha256 :: "bytes \<Rightarrow> bytes"
  gzip :: "bytes \<Rightarrow> bytes"
  OpenError :: "string \<Rightarrow> error option"
  gzip_NewReader :: "bytes \<Rightarrow> error + bytes"
  tar_Headers :: "bytes \<Rightarrow> 64 word list \<times> error option"
  MkdirAllError :: "string \<Rightarrow> error option"
  RenameError :: "string \<Rightarrow> string \<Rightarrow> error option"
  DestinationDirectory :: "imagec_Options \<Rightarrow> string"

section \<open>Materializing the diff\<close>

definition hex_byte :: "8 word \<Rightarrow> string" where
  "hex_byte b = [''0123456789abcdef'' ! (unat b div 16), ''0123456789abcdef'' ! (unat b mod 16)]"

text \<open>\<open>digest.NewDigestFromBytes(digest.SHA256, p)\<close>, and the digest's \<open>String()\<close>.\<close>

definition NewDigestFromBytes :: "bytes \<Rightarrow> string" where
  "NewDigestFromBytes p = ''sha256:'' @ concat (map hex_byte p)"

definition DigestSHA256EmptyTar :: string where
  "DigestSHA256EmptyTar =
     ''sha256:5f70bf18a086007016e948b04aed3b82103a36bea41755b6cddfaf10ace3c6ef''"

text \<open>\<open>path.Join\<close> of two elements that need no cleaning.\<close>

definition path_Join :: "string \<Rightarrow> string \<Rightarrow> string" where
  "path_Join a b = (if b = [] then a else if a = [] then b else a @ ''/'' @ b)"

text \<open>\<open>os.Remove\<close>; its own failure is not looked at by the callers.\<close>

definition os_Remove :: "string \<Rightarrow> world \<Rightarrow> world" where
  "os_Remove name w = w\<lparr>files := (files w)(name := None)\<rparr>"

text \<open>
  \<open>io.Copy\<close> into the two multi-writers: it fails with the write error, if one is
  forced, else with the stream's read error.
\<close>

definition io_Copy :: "diff_env \<Rightarrow> stream \<Rightarrow> error option" where
  "io_Copy D rc = (case WriteError D of Some e \<Rightarrow> Some e | None \<Rightarrow> read_error rc)"

text \<open>
  \<open>compressDiffToTmpFile\<close>: the temporary file is created, the stream is copied
  through the compressor into it while both hashes are fed; on a copy error the
  deferred \<open>cleanup\<close> closes and removes the file. On success the result is the
  file name, the hash of the bytes read and the hash of the bytes written.
\<close>

definition compressDiffToTmpFile ::
  "diff_env \<Rightarrow> stream \<Rightarrow> string \<Rightarrow> world \<Rightarrow> (error + string \<times> bytes \<times> bytes) \<times> world" where
  "compressDiffToTmpFile D rc containerID w =
     (case TempFile D containerID of
        Inl err \<Rightarrow> (Inl err, w)
      | Inr out \<Rightarrow>
          (let w1 = w\<lparr>files := (files w)(out \<mapsto> [])\<rparr>
           in case io_Copy D rc of
                Some err \<Rightarrow> (Inl err, os_Remove out w1)
              | None \<Rightarrow>
                  (Inr (out, sha256 D (payload rc), sha256 D (gzip D (payload rc))),
                   w1\<lparr>files := (files w1)(out \<mapsto> gzip D (payload rc))\<rparr>)))"

text \<open>
  The loop over \<open>tr.Next()\<close>: each header adds its size to \<open>layerSize\<close> (an
  \<open>int64\<close>); the end of the headers is \<open>io.EOF\<close> or an error.
\<close>

fun scan_headers :: "64 word \<Rightarrow> 64 word list \<Rightarrow> error option \<Rightarrow> error + 64 word" where
  "scan_headers layerSize [] None = Inr layerSize"
| "scan_headers layerSize [] (Some terr) = Inl terr"
| "scan_headers layerSize (sz # rest) t = scan_headers (layerSize + sz) rest t"

definition os_Open :: "diff_env \<Rightarrow> string \<Rightarrow> world \<Rightarrow> error + bytes" where
  "os_Open D name w =
     (case OpenError D name of
        Some err \<Rightarrow> Inl err
      | None \<Rightarrow> (case files w name of
                   None \<Rightarrow> Inl (LibError ''no such file or directory'')
                 | Some content \<Rightarrow> Inr content))"

definition os_MkdirAll :: "diff_env \<Rightarrow> string \<Rightarrow> world \<Rightarrow> error option \<times> world" where
  "os_MkdirAll D dir w =
     (case MkdirAllError D dir of
        Some err \<Rightarrow> (Some err, w)
      | None \<Rightarrow> (None, w\<lparr>dirs := insert dir (dirs w)\<rparr>))"

definition os_Rename :: "diff_env \<Rightarrow> string \<Rightarrow> string \<Rightarrow> world \<Rightarrow> error option \<times> world" where
  "os_Rename D old new w =
     (case RenameError D old new of
        Some err \<Rightarrow> (Some err, w)
      | None \<Rightarrow> (case files w old of
                   None \<Rightarrow> (Some (LibError ''no such file or directory''), w)
                 | Some content \<Rightarrow>
                     (None, w\<lparr>files := ((files w)(old := None))(new \<mapsto> content)\<rparr>)))"

text \<open>
  \<open>downloadDiff\<close>. After \<open>compressDiffToTmpFile\<close> has succeeded, the deferred
  function removes the temporary file on every exit that has \<open>err\<close> set.
\<close>

definition downloadDiff ::
  "diff_env \<Rightarrow> stream \<Rightarrow> string \<Rightarrow> imagec_Options \<Rightarrow> world \<Rightarrow> (error + ImageWithMeta) \<times> world" where
  "downloadDiff D rc containerID options w =
     (let layerID = GenerateRandomID D
      in case compressDiffToTmpFile D rc containerID w of
           (Inl err, w1) \<Rightarrow> (Inl err, w1)
         | (Inr (tmpLayerFileName, diffIDSum, gzSum), w1) \<Rightarrow>
             (let blobSum = NewDigestFromBytes gzSum;
                  diffID = NewDigestFromBytes diffIDSum
              in case os_Open D tmpLayerFileName w1 of
                   Inl err \<Rightarrow> (Inl err, os_Remove tmpLayerFileName w1)
                 | Inr layerFile \<Rightarrow>
                     (case gzip_NewReader D layerFile of
                        Inl err \<Rightarrow> (Inl err, os_Remove tmpLayerFileName w1)
                      | Inr decompressed \<Rightarrow>
                          (case scan_headers 0 (fst (tar_Headers D decompressed))
                                  (snd (tar_Headers D decompressed)) of
                             Inl err \<Rightarrow> (Inl err, os_Remove tmpLayerFileName w1)
                           | Inr layerSize \<Rightarrow>
                               (let diffID' = (if layerSize = 0 then DigestSHA256EmptyTar
                                               else diffID);
                                    destination = path_Join (DestinationDirectory D options) layerID
                                in case os_MkdirAll D destination w1 of
                                     (Some err, w2) \<Rightarrow> (Inl err, os_Remove tmpLayerFileName w2)
                                   | (None, w2) \<Rightarrow>
                                       (case os_Rename D tmpLayerFileName
                                               (path_Join destination (layerID @ ''.tar'')) w2 of
                                          (Some err, w3) \<Rightarrow>
                                            (Inl err, os_Remove tmpLayerFileName w3)
                                        | (None, w3) \<Rightarrow>
                                            (Inr \<lparr>ID = [], Parent = [], Image = None,
                                                  DiffID = diffID',
                                                  Layer_BlobSum = blobSum,
                                                  Meta = [], Size = layerSize\<rparr>, w3)))))))"


section \<open>The commit\<close>

record VicContainer =
  ContainerID :: string
  LayerID :: string
  vc_ImageID :: string

record ContainerJSON =
  container_ID :: string
  State_Running :: bool
  State_Restarting :: bool
  container_Config :: Config

text \<open>What \<open>ContainerInspect\<close> hands back: a \<open>*types.ContainerJSON\<close> or something else.\<close>

datatype inspected = IsContainerJSON ContainerJSON | OtherValue

record ContainerCommitConfig =
  Repo :: string
  Tag :: string
  Comment :: string
  Changes :: "string list"
  MergeConfigs :: bool
  commit_Config :: Config

record V1Image =
  V1_ID :: string
  V1_Parent :: string
  V1_Comment :: string
  V1_Created :: string
  V1_Container :: string
  V1_ContainerConfig :: Config
  V1_Architecture :: string
  V1_OS :: string
  V1_DockerVersion :: string
  V1_Config :: Config
  V1_Size :: "64 word"

text \<open>
  The collaborators of \<open>Commit\<close>: the container cache and engine, the Dockerfile
  builder, the export reader, the reference parser, the constructor \<open>imagec.NewImageC\<close>,
  the result of \<open>sys.UUID()\<close>, the clock, the JSON encoder, \<open>CreateImageConfig\<close>,
  and the errors the writes may be made to return. \<open>ScratchLayerID\<close> is the sentinel
  constant of \<open>imagec\<close>. \<open>ic.Reference\<close> is read as the reference of
  \<open>ic.Options\<close>.
\<close>

record commit_env =
  Diff :: diff_env
  Platform :: platform
  GOARCH :: string
  ProductName :: string
  DockerServerVersion :: string
  ScratchLayerID :: string
  GetContainer :: "string \<Rightarrow> VicContainer option"
  ContainerInspect :: "string \<Rightarrow> error + inspected"
  BuildFromConfig :: "Config \<Rightarrow> string list \<Rightarrow> error + Config"
  ArchiveExportReader :: "string \<Rightarrow> string \<Rightarrow> error + stream"
  WithName :: "string \<Rightarrow> error + string"
  WithTag :: "string \<Rightarrow> string \<Rightarrow> error + string"
  NewImageC :: "imagec_Options \<Rightarrow> ImageC"
  UUID :: "error + string"
  Now :: string
  Marshal :: "V1Image \<Rightarrow> error + string"
  WriteFileError :: "string \<Rightarrow> error option"
  CreateImageConfig :: "ImageWithMeta list \<Rightarrow> error + ImageConfig"
  SaveError :: "error option"
  WriteImageBlobError :: "ImageWithMeta \<Rightarrow> error option"

text \<open>
  \<open>getImagec\<close>. \<open>newTag\<close> is parsed from the repo and the tag, and each parse
  error is returned; \<open>imageRef\<close> is declared \<open>nil\<close> and never assigned, so the
  options are built with a \<open>nil\<close> reference and \<open>ParseReference\<close> is not called.
\<close>

definition getImagec :: "commit_env \<Rightarrow> ContainerCommitConfig \<Rightarrow> error + ImageC" where
  "getImagec E config =
     (let imageRef = None
      in if Repo config \<noteq> [] then
           (case WithName E (Repo config) of
              Inl err \<Rightarrow> Inl err
            | Inr newTag \<Rightarrow>
                if Tag config \<noteq> [] then
                  (case WithTag E newTag (Tag config) of
                     Inl err \<Rightarrow> Inl err
                   | Inr newTag' \<Rightarrow> Inr (NewImageC E \<lparr>Reference = imageRef\<rparr>))
                else Inr (NewImageC E \<lparr>Reference = imageRef\<rparr>))
         else Inr (NewImageC E \<lparr>Reference = imageRef\<rparr>))"

text \<open>
  \<open>setLayerConfig\<close>. Its first statement reads \<open>lm.ID\<close>, which panics when
  \<open>lm\<close> is \<open>nil\<close>; \<open>vc.LayerID\<close> panics when the container is not in the cache.
  The layer is mutated in place; the model returns it.
\<close>

definition setLayerConfig ::
  "commit_env \<Rightarrow> ImageWithMeta option \<Rightarrow> ContainerJSON \<Rightarrow> ContainerCommitConfig \<Rightarrow> Config
     \<Rightarrow> (error + ImageWithMeta) outcome" where
  "setLayerConfig E lm container config newConfig =
     (case lm of
        None \<Rightarrow> Panicked
      | Some l \<Rightarrow>
          (case UUID E of
             Inl err \<Rightarrow>
               Returned (Inl (InternalServerError (''Failed to get host name: '' @ Error err)))
           | Inr host \<Rightarrow>
               (case GetContainer E (container_ID container) of
                  None \<Rightarrow> Panicked
                | Some vc \<Rightarrow>
                    (let meta = \<lparr>V1_ID = ID l, V1_Parent = LayerID vc,
                                 V1_Comment = Comment config, V1_Created = Now E,
                                 V1_Container = container_ID container,
                                 V1_ContainerConfig = container_Config container,
                                 V1_Architecture = GOARCH E, V1_OS = GOOS (Platform E),
                                 V1_DockerVersion = DockerServerVersion E,
                                 V1_Config = newConfig, V1_Size = Size l\<rparr>
                     in case Marshal E meta of
                          Inl err \<Rightarrow>
                            Returned (Inl (InternalServerError
                              (''Failed to marshal image layer config: '' @ Error err)))
                        | Inr m \<Rightarrow>
                            Returned (Inr (l\<lparr>Meta := m,
                                             Image := Some \<lparr>Image_ID = ID l,
                                                            Image_Parent = vc_ImageID vc,
                                                            Image_Store = host\<rparr>\<rparr>))))))"

text \<open>
  Modelled from the spec: the layer cache, the image cache and the repository cache
  of \<open>imagec\<close> and \<open>cache\<close>, \<open>WriteImageBlob\<close> and the event service are not
  among the sources. \<open>Add\<close> inserts or replaces the entry keyed by the record's
  identifier, \<open>Get\<close> returns the cached record or a not-found failure, \<open>Commit\<close>
  marks an added layer as finalized, \<open>Save\<close> persists the whole index or fails, the
  repository registration maps the reference to the image ID, the blob of a layer is
  written or the write fails, and an event is appended to the log.
\<close>

definition LayerCache_Add :: "ImageWithMeta \<Rightarrow> world \<Rightarrow> world" where
  "LayerCache_Add lm w = w\<lparr>layer_cache := (layer_cache w)(ID lm \<mapsto> lm)\<rparr>"

definition LayerCache_Get :: "(string \<rightharpoonup> ImageWithMeta) \<Rightarrow> string \<Rightarrow> error + ImageWithMeta" where
  "LayerCache_Get c layerID =
     (case c layerID of
        None \<Rightarrow> Inl (LibError (''layer not found: '' @ layerID))
      | Some lm \<Rightarrow> Inr lm)"

definition LayerCache_Commit :: "ImageWithMeta \<Rightarrow> world \<Rightarrow> world" where
  "LayerCache_Commit lm w = w\<lparr>layers_committed := insert (ID lm) (layers_committed w)\<rparr>"

definition ImageCache_Add :: "ImageConfig \<Rightarrow> world \<Rightarrow> world" where
  "ImageCache_Add imageConfig w =
     w\<lparr>image_cache := (image_cache w)(ImageID imageConfig \<mapsto> imageConfig)\<rparr>"

definition ImageCache_Save :: "commit_env \<Rightarrow> world \<Rightarrow> error option \<times> world" where
  "ImageCache_Save E w =
     (case SaveError E of
        Some err \<Rightarrow> (Some err, w)
      | None \<Rightarrow> (None, w\<lparr>image_cache_saved := image_cache w\<rparr>))"

definition UpdateRepositoryCache :: "ImageC \<Rightarrow> world \<Rightarrow> world" where
  "UpdateRepositoryCache ic w =
     (case Reference (Options ic) of
        None \<Rightarrow> w
      | Some r \<Rightarrow> w\<lparr>repo_cache := (repo_cache w)(r \<mapsto> ic_ImageID ic)\<rparr>)"

definition WriteImageBlob :: "commit_env \<Rightarrow> ImageWithMeta \<Rightarrow> world \<Rightarrow> error option \<times> world" where
  "WriteImageBlob E lm w =
     (case WriteImageBlobError E lm of
        Some err \<Rightarrow> (Some err, w)
      | None \<Rightarrow> (None, w\<lparr>blobs := insert (ID lm) (blobs w)\<rparr>))"

definition bytes_of :: "string \<Rightarrow> bytes" where
  "bytes_of s = map of_char s"

definition ioutil_WriteFile :: "commit_env \<Rightarrow> string \<Rightarrow> bytes \<Rightarrow> world \<Rightarrow> error option \<times> world" where
  "ioutil_WriteFile E name content w =
     (case WriteFileError E name of
        Some err \<Rightarrow> (Some err, w)
      | None \<Rightarrow> (None, w\<lparr>files := (files w)(name \<mapsto> content)\<rparr>))"

definition Log :: "event \<Rightarrow> world \<Rightarrow> world" where
  "Log ev w = w\<lparr>events := events w @ [ev]\<rparr>"

text \<open>
  The chain walk of \<open>Commit\<close>: \<open>for pl := lm.Parent; pl != imagec.ScratchLayerID; { ... }\<close>.
  The statement has no post statement and the body does not assign \<open>pl\<close>; the body
  overwrites \<open>lm\<close> with the cached parent and appends it. A walk that does not
  return has the value \<open>None\<close>.
\<close>

partial_function (option) chain_walk ::
  "(string \<rightharpoonup> ImageWithMeta) \<Rightarrow> string \<Rightarrow> string \<Rightarrow> ImageWithMeta \<Rightarrow> ImageWithMeta list
     \<Rightarrow> (error + ImageWithMeta \<times> ImageWithMeta list) option" where
  "chain_walk c scratch pl lm layers =
     (if pl = scratch then Some (Inr (lm, layers))
      else (case LayerCache_Get c pl of
              Inl err \<Rightarrow>
                Some (Inl (InternalServerError
                  (''Failed to get parent image layer '' @ pl @ '': '' @ Error err)))
            | Inr lm' \<Rightarrow> chain_walk c scratch pl lm' (layers @ [lm'])))"

text \<open>
  \<open>Commit\<close>, first part: the checks on the container, the new configuration, the
  export stream and the \<open>ImageC\<close>. Opening the export stream is recorded in the world.
\<close>

definition Commit_prepare ::
  "commit_env \<Rightarrow> string \<Rightarrow> ContainerCommitConfig \<Rightarrow> world
     \<Rightarrow> (error + VicContainer \<times> ContainerJSON \<times> Config \<times> stream \<times> ImageC) \<times> world" where
  "Commit_prepare E name config w =
     (case GetContainer E name of
        None \<Rightarrow> (Inl (NotFoundError name), w)
      | Some vc \<Rightarrow>
          (case ContainerInspect E name of
             Inl err \<Rightarrow> (Inl (InternalServerError (Error err)), w)
           | Inr OtherValue \<Rightarrow>
               (Inl (InternalServerError ''Container type assertion failed''), w)
           | Inr (IsContainerJSON container) \<Rightarrow>
               if State_Running container \<or> State_Restarting container then
                 (Inl (ConflictError
                    (ProductName E @ '' does not support commit of a running container'')), w)
               else
                 (case BuildFromConfig E (commit_Config config) (Changes config) of
                    Inl err \<Rightarrow> (Inl err, w)
                  | Inr newConfig \<Rightarrow>
                      (let newConfig' = (if MergeConfigs config
                                         then merge (Platform E) newConfig (container_Config container)
                                         else newConfig);
                           w1 = w\<lparr>exports := exports w @ [ContainerID vc]\<rparr>
                       in case ArchiveExportReader E (ContainerID vc) (LayerID vc) of
                            Inl err \<Rightarrow>
                              (Inl (Errorf (''Unable to initialize export stream reader for container ''
                                             @ name)), w1)
                          | Inr rc \<Rightarrow>
                              (case getImagec E config of
                                 Inl err \<Rightarrow> (Inl err, w1)
                               | Inr ic \<Rightarrow> (Inr (vc, container, newConfig', rc, ic), w1))))))"

text \<open>
  Second part: \<open>downloadDiff\<close>, whose error is overwritten by the result of
  \<open>setLayerConfig\<close> without being looked at, the metadata file next to the diff, and
  the layer cache.
\<close>

definition Commit_layer ::
  "commit_env \<Rightarrow> ContainerJSON \<Rightarrow> ContainerCommitConfig \<Rightarrow> Config \<Rightarrow> stream \<Rightarrow> ImageC \<Rightarrow> world
     \<Rightarrow> (error + ImageWithMeta) outcome \<times> world" where
  "Commit_layer E container config newConfig rc ic w =
     (case downloadDiff (Diff E) rc (container_ID container) (Options ic) w of
        (r, w1) \<Rightarrow>
          (let lm = (case r of Inl err \<Rightarrow> None | Inr l \<Rightarrow> Some l)
           in case setLayerConfig E lm container config newConfig of
                Panicked \<Rightarrow> (Panicked, w1)
              | Returned (Inl err) \<Rightarrow> (Returned (Inl err), w1)
              | Returned (Inr lm') \<Rightarrow>
                  (let destination = path_Join (DestinationDirectory (Diff E) (Options ic)) (ID lm')
                   in case ioutil_WriteFile E (path_Join destination (ID lm' @ ''.json''))
                             (bytes_of (Meta lm')) w1 of
                        (Some err, w2) \<Rightarrow> (Returned (Inl err), w2)
                      | (None, w2) \<Rightarrow> (Returned (Inr lm'), LayerCache_Add lm' w2))))"

text \<open>
  Last part: the image configuration, the image cache, the repository cache, the blob,
  and the event. \<open>lm\<close> is the layer the chain walk left in that variable.
\<close>

definition Commit_publish ::
  "commit_env \<Rightarrow> ImageC \<Rightarrow> ImageWithMeta \<Rightarrow> ImageWithMeta list \<Rightarrow> world
     \<Rightarrow> (error + string) \<times> world" where
  "Commit_publish E ic lm layers w =
     (let ic1 = ic\<lparr>ImageLayers := layers\<rparr>
      in case CreateImageConfig E layers of
           Inl err \<Rightarrow> (Inl err, w)
         | Inr imageConfig \<Rightarrow>
             (let ic2 = ic1\<lparr>ic_ImageID := ImageID imageConfig\<rparr>;
                  w1 = ImageCache_Add imageConfig w
              in case ImageCache_Save E w1 of
                   (Some err, w2) \<Rightarrow>
                     (Inl (Errorf (''error saving image cache: '' @ Error err)), w2)
                 | (None, w2) \<Rightarrow>
                     (let w3 = (if Reference (Options ic2) \<noteq> None
                                then UpdateRepositoryCache ic2 w2 else w2)
                      in case WriteImageBlob E lm w3 of
                           (Some err, w4) \<Rightarrow> (Inl err, w4)
                         | (None, w4) \<Rightarrow>
                             (let w5 = LayerCache_Commit lm w4;
                                  refName = (case Reference (Options ic2) of
                                               None \<Rightarrow> []
                                             | Some r \<Rightarrow> r);
                                  actor = \<lparr>action = ''commit'', eventType = ''image'',
                                           actor_ID = ImageID imageConfig,
                                           actor_refName = refName\<rparr>
                              in (Inr (ImageID imageConfig), Log actor w5)))))"

text \<open>\<open>Commit\<close>: \<open>None\<close> when the call does not return.\<close>

definition Commit ::
  "commit_env \<Rightarrow> string \<Rightarrow> ContainerCommitConfig \<Rightarrow> world
     \<Rightarrow> ((error + string) outcome \<times> world) option" where
  "Commit E name config w =
     (case Commit_prepare E name config w of
        (Inl err, w1) \<Rightarrow> Some (Returned (Inl err), w1)
      | (Inr (vc, container, newConfig, rc, ic), w1) \<Rightarrow>
          (case Commit_layer E container config newConfig rc ic w1 of
             (Panicked, w2) \<Rightarrow> Some (Panicked, w2)
           | (Returned (Inl err), w2) \<Rightarrow> Some (Returned (Inl err), w2)
           | (Returned (Inr lm), w2) \<Rightarrow>
               (case chain_walk (layer_cache w2) (ScratchLayerID E) (Parent lm) lm [lm] of
                  None \<Rightarrow> None
                | Some (Inl err) \<Rightarrow> Some (Returned (Inl err), w2)
                | Some (Inr (lm', layers)) \<Rightarrow>
                    (case Commit_publish E ic lm' layers w2 of
                       (r, w3) \<Rightarrow> Some (Returned r, w3)))))"


section \<open>Notions used to state the properties, and example inputs\<close>

text \<open>
  The name of an environment entry is what stands left of the first \<open>=\<close>; two entries
  match when their names are equal, after upper-casing both on Windows.
\<close>

definition env_name :: "string \<Rightarrow> string" where
  "env_name e = takeWhile (\<lambda>x. x \<noteq> CHR ''='') e"

definition fold_case :: "platform \<Rightarrow> string \<Rightarrow> string" where
  "fold_case p k = (if GOOS p = ''windows'' then ToUpper p k else k)"

definition name_match :: "platform \<Rightarrow> string \<Rightarrow> string \<Rightarrow> bool" where
  "name_match p a b = (fold_case p (env_name a) = fold_case p (env_name b))"

text \<open>
  The base entries, in base order, whose name matches no user entry: what is appended
  if every base entry is compared with the user's own entries only.
\<close>

definition unmatched_base :: "platform \<Rightarrow> string list \<Rightarrow> string list \<Rightarrow> string list" where
  "unmatched_base p user base = filter (\<lambda>e. \<not> list_ex (name_match p e) user) base"

text \<open>
  The base entries, in base order, whose name matches neither a user entry nor a base
  entry that stands before them.
\<close>

definition kept_base :: "platform \<Rightarrow> string list \<Rightarrow> string list \<Rightarrow> string list" where
  "kept_base p user base =
     [base ! j. j \<leftarrow> [0..<length base],
                \<not> list_ex (name_match p (base ! j)) (user @ take j base)]"

text \<open>The four fills of a partial health check, as one update.\<close>

definition fill_Healthcheck :: "HealthConfig \<Rightarrow> HealthConfig \<Rightarrow> HealthConfig" where
  "fill_Healthcheck uh ih =
     uh\<lparr>Test := (if len (Test uh) = 0 then Test ih else Test uh),
        Interval := (if Interval uh = 0 then Interval ih else Interval uh),
        Timeout := (if Timeout uh = 0 then Timeout ih else Timeout uh),
        Retries := (if Retries uh = 0 then Retries ih else Retries uh)\<rparr>"

text \<open>Two platforms for the examples; \<open>ToUpper\<close> is upper-casing of ASCII letters.\<close>

definition upper_char :: "char \<Rightarrow> char" where
  "upper_char c =
     (case map_of (zip ''abcdefghijklmnopqrstuvwxyz'' ''ABCDEFGHIJKLMNOPQRSTUVWXYZ'') c of
        None \<Rightarrow> c
      | Some C \<Rightarrow> C)"

definition linux :: platform where
  "linux = \<lparr>GOOS = ''linux'', ToUpper = map upper_char\<rparr>"

definition windows :: platform where
  "windows = \<lparr>GOOS = ''windows'', ToUpper = map upper_char\<rparr>"

text \<open>The zero value of \<open>container.Config\<close>.\<close>

definition empty_Config :: Config where
  "empty_Config = \<lparr>User = [], ExposedPorts = None, Env = None, Labels = None,
     Entrypoint = None, Cmd = None, ArgsEscaped = False, Healthcheck = None,
     WorkingDir = [], Volumes = None, StopSignal = []\<rparr>"

definition image_sh :: Config where
  "image_sh = empty_Config\<lparr>Entrypoint := Some [''sh''], Cmd := Some [''-c'', ''echo hi''],
                            ArgsEscaped := True\<rparr>"

definition user_cmd_only :: Config where
  "user_cmd_only = empty_Config\<lparr>Cmd := Some [''ls'']\<rparr>"

definition user_cleared_entrypoint :: Config where
  "user_cleared_entrypoint = empty_Config\<lparr>Entrypoint := Some []\<rparr>"

definition user_A :: Config where
  "user_A = empty_Config\<lparr>Env := Some [''A=1'']\<rparr>"

definition image_AB :: Config where
  "image_AB = empty_Config\<lparr>Env := Some [''A=2'', ''B=3'']\<rparr>"

definition image_BB :: Config where
  "image_BB = empty_Config\<lparr>Env := Some [''B=2'', ''B=3'']\<rparr>"

definition user_path :: Config where
  "user_path = empty_Config\<lparr>Env := Some [''Path=C:/bin''], Cmd := Some [''cmd''],
     Labels := Some [''a'' \<mapsto> ''1''], ExposedPorts := Some {''80/tcp''},
     Healthcheck := Some \<lparr>Test = None, Interval = 5, Timeout = 0, Retries = 0\<rparr>\<rparr>"

definition image_path :: Config where
  "image_path = empty_Config\<lparr>User := ''root'',
     Env := Some [''PATH=C:/windows'', ''TEMP=C:/tmp'', ''temp=D:/tmp''],
     Entrypoint := Some [''powershell''], Cmd := Some [''-c'', ''dir''],
     Labels := Some [''a'' \<mapsto> ''0'', ''b'' \<mapsto> ''2''],
     ExposedPorts := Some {''443/tcp''}, Volumes := Some {''/data''},
     Healthcheck := Some \<lparr>Test = Some [''CMD'', ''true''], Interval = 9, Timeout = 3,
                            Retries = 2\<rparr>\<rparr>"

text \<open>
  An environment for \<open>downloadDiff\<close> in which every operation succeeds, with
  stand-ins for the hash (the length of its input), the compressor (a two-byte header
  before the input) and the tar reader (one header per archive byte, the byte being the
  size); variants of it that force one failure each; streams and worlds.
\<close>

definition demo_diff :: diff_env where
  "demo_diff =
     \<lparr>GenerateRandomID = ''layer1'',
      TempFile = (\<lambda>containerID. Inr (''/tmp/'' @ containerID)),
      WriteError = None,
      sha256 = (\<lambda>b. [of_nat (length b)]),
      gzip = (\<lambda>b. 31 # 139 # b),
      OpenError = (\<lambda>name. None),
      gzip_NewReader = (\<lambda>c. case c of
                          a # b # rest \<Rightarrow> if a = 31 \<and> b = 139 then Inr rest
                                          else Inl (LibError ''gzip: invalid header'')
                        | _ \<Rightarrow> Inl (LibError ''unexpected EOF'')),
      tar_Headers = (\<lambda>archive. (map ucast archive, None)),
      MkdirAllError = (\<lambda>dir. None),
      RenameError = (\<lambda>old new. None),
      DestinationDirectory = (\<lambda>options. ''/images'')\<rparr>"

definition empty_world :: world where
  "empty_world = \<lparr>files = Map.empty, dirs = {}, exports = [], layer_cache = Map.empty,
     layers_committed = {}, image_cache = Map.empty, image_cache_saved = Map.empty,
     repo_cache = Map.empty, blobs = {}, events = []\<rparr>"

definition fail_write :: diff_env where
  "fail_write = demo_diff\<lparr>WriteError := Some (LibError ''no space left on device'')\<rparr>"

definition fail_scan :: diff_env where
  "fail_scan = demo_diff\<lparr>tar_Headers := (\<lambda>archive. ([], Some (LibError ''unexpected EOF'')))\<rparr>"

definition fail_mkdir :: diff_env where
  "fail_mkdir = demo_diff\<lparr>MkdirAllError := (\<lambda>dir. Some (LibError ''permission denied''))\<rparr>"

definition fail_rename :: diff_env where
  "fail_rename = demo_diff\<lparr>RenameError := (\<lambda>old new. Some (LibError ''rename failed''))\<rparr>"

definition other_diff :: diff_env where
  "other_diff = demo_diff\<lparr>GenerateRandomID := ''layer2'',
                            TempFile := (\<lambda>containerID. Inr (''/var/tmp/'' @ containerID))\<rparr>"

definition demo_stream :: stream where
  "demo_stream = \<lparr>payload = [1, 2, 3], read_error = None\<rparr>"

definition empty_stream :: stream where
  "empty_stream = \<lparr>payload = [], read_error = None\<rparr>"

definition dirs_stream :: stream where
  "dirs_stream = \<lparr>payload = [0, 0], read_error = None\<rparr>"

definition no_reference :: imagec_Options where
  "no_reference = \<lparr>Reference = None\<rparr>"

definition busy_world :: world where
  "busy_world = empty_world\<lparr>files := [''/images/old/old.tar'' \<mapsto> [7]]\<rparr>"


text \<open>
  A stopped container \<open>c1\<close> and collaborators that all succeed; the same with the
  container running, and with the rename of \<open>downloadDiff\<close> failing; two commit
  configurations; three cached layers \<open>L3\<close>, \<open>L2\<close>, \<open>L1\<close>, each the parent of
  the one before, the last on scratch.
\<close>

definition demo_container :: ContainerJSON where
  "demo_container = \<lparr>container_ID = ''c1'', State_Running = False, State_Restarting = False,
                      container_Config = image_sh\<rparr>"

definition demo_env :: commit_env where
  "demo_env =
     \<lparr>Diff = demo_diff, Platform = linux, GOARCH = ''amd64'', ProductName = ''vic'',
      DockerServerVersion = ''1.13'', ScratchLayerID = ''scratch'',
      GetContainer = (\<lambda>name. if name = ''c1''
                               then Some \<lparr>ContainerID = ''c1'', LayerID = ''L0'',
                                          vc_ImageID = ''img0''\<rparr>
                               else None),
      ContainerInspect = (\<lambda>name. Inr (IsContainerJSON demo_container)),
      BuildFromConfig = (\<lambda>config changes. Inr config),
      ArchiveExportReader = (\<lambda>containerID layerID. Inr demo_stream),
      WithName = (\<lambda>repo. Inr repo),
      WithTag = (\<lambda>name tag. Inr (name @ '':'' @ tag)),
      NewImageC = (\<lambda>options. \<lparr>Options = options, ImageLayers = [], ic_ImageID = []\<rparr>),
      UUID = Inr ''host-1'', Now = ''2017-06-01T00:00:00Z'',
      Marshal = (\<lambda>meta. Inr ''{}''),
      WriteFileError = (\<lambda>name. None),
      CreateImageConfig = (\<lambda>layers. Inr \<lparr>ImageID = ''sha256:img1''\<rparr>),
      SaveError = None,
      WriteImageBlobError = (\<lambda>lm. None)\<rparr>"

definition running_env :: commit_env where
  "running_env = demo_env\<lparr>ContainerInspect :=
      (\<lambda>name. Inr (IsContainerJSON (demo_container\<lparr>State_Running := True\<rparr>)))\<rparr>"

definition failing_env :: commit_env where
  "failing_env = demo_env\<lparr>Diff := fail_rename\<rparr>"

definition plain_commit :: ContainerCommitConfig where
  "plain_commit = \<lparr>Repo = [], Tag = [], Comment = ''snapshot'', Changes = [],
                    MergeConfigs = True, commit_Config = empty_Config\<rparr>"

definition tagged_commit :: ContainerCommitConfig where
  "tagged_commit = plain_commit\<lparr>Repo := ''myrepo'', Tag := ''v1''\<rparr>"

definition layer :: "string \<Rightarrow> string \<Rightarrow> ImageWithMeta" where
  "layer layerID parentID = \<lparr>ID = layerID, Parent = parentID, Image = None,
     DiffID = DigestSHA256EmptyTar, Layer_BlobSum = DigestSHA256EmptyTar, Meta = [],
     Size = 0\<rparr>"

definition three_layers :: "string \<rightharpoonup> ImageWithMeta" where
  "three_layers = [''L1'' \<mapsto> layer ''L1'' ''scratch'', ''L2'' \<mapsto> layer ''L2'' ''L1'',
                   ''L3'' \<mapsto> layer ''L3'' ''L2'']"


section \<open>Properties of the configuration merge\<close>

lemma Split_not_Nil: "Split s c \<noteq> []"
  by (induction s) (auto split: list.splits)

lemma hd_Split: "hd (Split s c) = takeWhile (\<lambda>x. x \<noteq> c) s"
  by (induction s) (auto split: list.splits simp: Split_not_Nil)

lemma upper_char_idem: "upper_char (upper_char c) = upper_char c"
  by (simp add: upper_char_def)

lemma fold_case_idem:
  assumes "GOOS p = ''windows'' \<longrightarrow> (\<forall>s. ToUpper p (ToUpper p s) = ToUpper p s)"
  shows "fold_case p (fold_case p k) = fold_case p k"
  using assms by (simp add: fold_case_def)

lemma env_found_iff:
  assumes "GOOS p = ''windows'' \<longrightarrow> (\<forall>s. ToUpper p (ToUpper p s) = ToUpper p s)"
  shows "env_found p k us = list_ex (\<lambda>u. fold_case p k = fold_case p (env_name u)) us"
proof (induction us arbitrary: k)
  case Nil
  then show ?case by simp
next
  case (Cons u us)
  show ?case
    using Cons.IH[of "fold_case p k"] fold_case_idem[OF assms, of k]
    by (auto simp: Let_def hd_Split fold_case_def env_name_def)
qed

lemma env_found_name_match:
  assumes "GOOS p = ''windows'' \<longrightarrow> (\<forall>s. ToUpper p (ToUpper p s) = ToUpper p s)"
  shows "env_found p (hd (Split e (CHR ''=''))) us = list_ex (name_match p e) us"
  by (simp add: env_found_iff[OF assms] name_match_def[abs_def] hd_Split env_name_def)

lemma kept_base_Nil: "kept_base p acc [] = []"
  by (simp add: kept_base_def)

lemma kept_base_Cons:
  "kept_base p acc (b # bs) =
     (if list_ex (name_match p b) acc then [] else [b]) @
     [bs ! j. j \<leftarrow> [0..<length bs],
              \<not> list_ex (name_match p (bs ! j)) (acc @ b # take j bs)]"
  unfolding kept_base_def
  by (simp add: upt_conv_Cons del: upt_Suc add: map_Suc_upt[symmetric] comp_def cong: if_cong)

lemma list_ex_through:
  assumes "list_ex (name_match p b) acc"
  shows "list_ex (name_match p e) (acc @ b # xs) = list_ex (name_match p e) (acc @ xs)"
  using assms by (auto simp: list_ex_iff name_match_def)

lemma kept_base_found:
  assumes "list_ex (name_match p b) acc"
  shows "kept_base p acc (b # bs) = kept_base p acc bs"
proof -
  have "kept_base p acc (b # bs) =
          [bs ! j. j \<leftarrow> [0..<length bs],
                   \<not> list_ex (name_match p (bs ! j)) (acc @ b # take j bs)]"
    by (simp only: kept_base_Cons assms if_True append_Nil)
  also have "\<dots> = kept_base p acc bs"
    by (simp only: kept_base_def list_ex_through[OF assms])
  finally show ?thesis .
qed

lemma kept_base_new:
  assumes "\<not> list_ex (name_match p b) acc"
  shows "kept_base p acc (b # bs) = b # kept_base p (acc @ [b]) bs"
proof -
  have "kept_base p acc (b # bs) =
          b # [bs ! j. j \<leftarrow> [0..<length bs],
                       \<not> list_ex (name_match p (bs ! j)) (acc @ b # take j bs)]"
    by (simp only: kept_base_Cons assms if_False append_Cons append_Nil)
  also have "\<dots> = b # kept_base p (acc @ [b]) bs"
    by (simp add: kept_base_def)
  finally show ?thesis .
qed

lemma env_append_kept_base:
  assumes "GOOS p = ''windows'' \<longrightarrow> (\<forall>s. ToUpper p (ToUpper p s) = ToUpper p s)"
  shows "env_append p acc base = acc @ kept_base p acc base"
proof (induction base arbitrary: acc)
  case Nil
  show ?case by (simp add: kept_base_Nil)
next
  case (Cons b bs)
  show ?case
  proof (cases "list_ex (name_match p b) acc")
    case True
    then show ?thesis
      by (simp add: env_found_name_match[OF assms] Cons.IH kept_base_found)
  next
    case False
    then show ?thesis
      by (simp add: env_found_name_match[OF assms] Cons.IH kept_base_new)
  qed
qed

lemma merge_User_fields:
  "User (merge_User u i) =
     (if User u = [] then User i else User u)"
  "ExposedPorts (merge_User u i) = ExposedPorts u"
  "Env (merge_User u i) = Env u"
  "Labels (merge_User u i) = Labels u"
  "Entrypoint (merge_User u i) = Entrypoint u"
  "Cmd (merge_User u i) = Cmd u"
  "ArgsEscaped (merge_User u i) = ArgsEscaped u"
  "Healthcheck (merge_User u i) = Healthcheck u"
  "WorkingDir (merge_User u i) = WorkingDir u"
  "Volumes (merge_User u i) = Volumes u"
  "StopSignal (merge_User u i) = StopSignal u"
  "Config.more (merge_User u i) = Config.more u"
  by (simp_all add: merge_User_def)

lemma merge_ExposedPorts_fields:
  "User (merge_ExposedPorts u i) = User u"
  "ExposedPorts (merge_ExposedPorts u i) =
     (if no_keys (ExposedPorts u) then ExposedPorts i
      else (case (ExposedPorts u, ExposedPorts i) of
              (Some up, Some ip) \<Rightarrow> Some (up \<union> ip)
            | _ \<Rightarrow> ExposedPorts u))"
  "Env (merge_ExposedPorts u i) = Env u"
  "Labels (merge_ExposedPorts u i) = Labels u"
  "Entrypoint (merge_ExposedPorts u i) = Entrypoint u"
  "Cmd (merge_ExposedPorts u i) = Cmd u"
  "ArgsEscaped (merge_ExposedPorts u i) = ArgsEscaped u"
  "Healthcheck (merge_ExposedPorts u i) = Healthcheck u"
  "WorkingDir (merge_ExposedPorts u i) = WorkingDir u"
  "Volumes (merge_ExposedPorts u i) = Volumes u"
  "StopSignal (merge_ExposedPorts u i) = StopSignal u"
  "Config.more (merge_ExposedPorts u i) = Config.more u"
  by (simp_all add: merge_ExposedPorts_def split: option.splits)

lemma merge_Env_fields:
  "User (merge_Env p u i) = User u"
  "ExposedPorts (merge_Env p u i) = ExposedPorts u"
  "Env (merge_Env p u i) =
     (if len (Env u) = 0 then Env i
      else Some (env_append p (elems (Env u)) (elems (Env i))))"
  "Labels (merge_Env p u i) = Labels u"
  "Entrypoint (merge_Env p u i) = Entrypoint u"
  "Cmd (merge_Env p u i) = Cmd u"
  "ArgsEscaped (merge_Env p u i) = ArgsEscaped u"
  "Healthcheck (merge_Env p u i) = Healthcheck u"
  "WorkingDir (merge_Env p u i) = WorkingDir u"
  "Volumes (merge_Env p u i) = Volumes u"
  "StopSignal (merge_Env p u i) = StopSignal u"
  "Config.more (merge_Env p u i) = Config.more u"
  by (simp_all add: merge_Env_def)

lemma merge_Labels_fields:
  "User (merge_Labels u i) = User u"
  "ExposedPorts (merge_Labels u i) = ExposedPorts u"
  "Env (merge_Labels u i) = Env u"
  "Labels (merge_Labels u i) =
     Some (case Labels i of
             None \<Rightarrow> (case Labels u of None \<Rightarrow> Map.empty | Some m \<Rightarrow> m)
           | Some il \<Rightarrow> il ++ (case Labels u of None \<Rightarrow> Map.empty | Some m \<Rightarrow> m))"
  "Entrypoint (merge_Labels u i) = Entrypoint u"
  "Cmd (merge_Labels u i) = Cmd u"
  "ArgsEscaped (merge_Labels u i) = ArgsEscaped u"
  "Healthcheck (merge_Labels u i) = Healthcheck u"
  "WorkingDir (merge_Labels u i) = WorkingDir u"
  "Volumes (merge_Labels u i) = Volumes u"
  "StopSignal (merge_Labels u i) = StopSignal u"
  "Config.more (merge_Labels u i) = Config.more u"
  by (simp_all add: merge_Labels_def Let_def)

lemma merge_Entrypoint_fields:
  "User (merge_Entrypoint u i) = User u"
  "ExposedPorts (merge_Entrypoint u i) = ExposedPorts u"
  "Env (merge_Entrypoint u i) = Env u"
  "Labels (merge_Entrypoint u i) = Labels u"
  "Entrypoint (merge_Entrypoint u i) =
     (if Entrypoint u = None then Entrypoint i else Entrypoint u)"
  "Cmd (merge_Entrypoint u i) =
     (if len (Entrypoint u) = 0 \<and> len (Cmd u) = 0 then Cmd i else Cmd u)"
  "ArgsEscaped (merge_Entrypoint u i) =
     (if len (Entrypoint u) = 0 \<and> len (Cmd u) = 0 then ArgsEscaped i else ArgsEscaped u)"
  "Healthcheck (merge_Entrypoint u i) = Healthcheck u"
  "WorkingDir (merge_Entrypoint u i) = WorkingDir u"
  "Volumes (merge_Entrypoint u i) = Volumes u"
  "StopSignal (merge_Entrypoint u i) = StopSignal u"
  "Config.more (merge_Entrypoint u i) = Config.more u"
  by (auto simp: merge_Entrypoint_def Let_def len_def split: option.splits)

lemma merge_Healthcheck_fields:
  "User (merge_Healthcheck u i) = User u"
  "ExposedPorts (merge_Healthcheck u i) = ExposedPorts u"
  "Env (merge_Healthcheck u i) = Env u"
  "Labels (merge_Healthcheck u i) = Labels u"
  "Entrypoint (merge_Healthcheck u i) = Entrypoint u"
  "Cmd (merge_Healthcheck u i) = Cmd u"
  "ArgsEscaped (merge_Healthcheck u i) = ArgsEscaped u"
  "WorkingDir (merge_Healthcheck u i) = WorkingDir u"
  "Volumes (merge_Healthcheck u i) = Volumes u"
  "StopSignal (merge_Healthcheck u i) = StopSignal u"
  "Config.more (merge_Healthcheck u i) = Config.more u"
  by (simp_all add: merge_Healthcheck_def Let_def split: option.splits)

lemma merge_WorkingDir_fields:
  "User (merge_WorkingDir u i) = User u"
  "ExposedPorts (merge_WorkingDir u i) = ExposedPorts u"
  "Env (merge_WorkingDir u i) = Env u"
  "Labels (merge_WorkingDir u i) = Labels u"
  "Entrypoint (merge_WorkingDir u i) = Entrypoint u"
  "Cmd (merge_WorkingDir u i) = Cmd u"
  "ArgsEscaped (merge_WorkingDir u i) = ArgsEscaped u"
  "Healthcheck (merge_WorkingDir u i) = Healthcheck u"
  "WorkingDir (merge_WorkingDir u i) =
     (if WorkingDir u = [] then WorkingDir i else WorkingDir u)"
  "Volumes (merge_WorkingDir u i) = Volumes u"
  "StopSignal (merge_WorkingDir u i) = StopSignal u"
  "Config.more (merge_WorkingDir u i) = Config.more u"
  by (simp_all add: merge_WorkingDir_def)

lemma merge_Volumes_fields:
  "User (merge_Volumes u i) = User u"
  "ExposedPorts (merge_Volumes u i) = ExposedPorts u"
  "Env (merge_Volumes u i) = Env u"
  "Labels (merge_Volumes u i) = Labels u"
  "Entrypoint (merge_Volumes u i) = Entrypoint u"
  "Cmd (merge_Volumes u i) = Cmd u"
  "ArgsEscaped (merge_Volumes u i) = ArgsEscaped u"
  "Healthcheck (merge_Volumes u i) = Healthcheck u"
  "WorkingDir (merge_Volumes u i) = WorkingDir u"
  "Volumes (merge_Volumes u i) =
     (if no_keys (Volumes u) then Volumes i
      else (case (Volumes u, Volumes i) of
              (Some uv, Some iv) \<Rightarrow> Some (uv \<union> iv)
            | _ \<Rightarrow> Volumes u))"
  "StopSignal (merge_Volumes u i) = StopSignal u"
  "Config.more (merge_Volumes u i) = Config.more u"
  by (simp_all add: merge_Volumes_def split: option.splits)

lemma merge_StopSignal_fields:
  "User (merge_StopSignal u i) = User u"
  "ExposedPorts (merge_StopSignal u i) = ExposedPorts u"
  "Env (merge_StopSignal u i) = Env u"
  "Labels (merge_StopSignal u i) = Labels u"
  "Entrypoint (merge_StopSignal u i) = Entrypoint u"
  "Cmd (merge_StopSignal u i) = Cmd u"
  "ArgsEscaped (merge_StopSignal u i) = ArgsEscaped u"
  "Healthcheck (merge_StopSignal u i) = Healthcheck u"
  "WorkingDir (merge_StopSignal u i) = WorkingDir u"
  "Volumes (merge_StopSignal u i) = Volumes u"
  "StopSignal (merge_StopSignal u i) =
     (if StopSignal u = [] then StopSignal i else StopSignal u)"
  "Config.more (merge_StopSignal u i) = Config.more u"
  by (simp_all add: merge_StopSignal_def)

lemmas merge_fields = merge_User_fields merge_ExposedPorts_fields merge_Env_fields merge_Labels_fields merge_Entrypoint_fields merge_Healthcheck_fields merge_WorkingDir_fields merge_Volumes_fields merge_StopSignal_fields

lemma merge_User_field: "User (merge p u i) = (if User u = [] then User i else User u)"
  by (simp add: merge_def Let_def merge_fields cong: option.case_cong)
lemma merge_WorkingDir_field: "WorkingDir (merge p u i) = (if WorkingDir u = [] then WorkingDir i else WorkingDir u)"
  by (simp add: merge_def Let_def merge_fields cong: option.case_cong)
lemma merge_StopSignal_field: "StopSignal (merge p u i) = (if StopSignal u = [] then StopSignal i else StopSignal u)"
  by (simp add: merge_def Let_def merge_fields cong: option.case_cong)
lemma merge_ExposedPorts_field: "ExposedPorts (merge p u i) =
    (if no_keys (ExposedPorts u) then ExposedPorts i
     else (case (ExposedPorts u, ExposedPorts i) of (Some up, Some ip) \<Rightarrow> Some (up \<union> ip) | _ \<Rightarrow> ExposedPorts u))"
  by (simp add: merge_def Let_def merge_fields cong: option.case_cong)
lemma merge_Volumes_field: "Volumes (merge p u i) =
    (if no_keys (Volumes u) then Volumes i
     else (case (Volumes u, Volumes i) of (Some uv, Some iv) \<Rightarrow> Some (uv \<union> iv) | _ \<Rightarrow> Volumes u))"
  by (simp add: merge_def Let_def merge_fields cong: option.case_cong)
lemma merge_Env_field: "Env (merge p u i) =
    (if len (Env u) = 0 then Env i else Some (env_append p (elems (Env u)) (elems (Env i))))"
  by (simp add: merge_def Let_def merge_fields cong: option.case_cong)
lemma merge_Labels_field: "Labels (merge p u i) =
    Some (case Labels i of None \<Rightarrow> (case Labels u of None \<Rightarrow> Map.empty | Some m \<Rightarrow> m)
          | Some il \<Rightarrow> il ++ (case Labels u of None \<Rightarrow> Map.empty | Some m \<Rightarrow> m))"
  by (simp add: merge_def Let_def merge_fields cong: option.case_cong)
lemma merge_Entrypoint_field: "Entrypoint (merge p u i) = (if Entrypoint u = None then Entrypoint i else Entrypoint u)"
  by (simp add: merge_def Let_def merge_fields cong: option.case_cong)
lemma merge_Cmd_field: "Cmd (merge p u i) = (if len (Entrypoint u) = 0 \<and> len (Cmd u) = 0 then Cmd i else Cmd u)"
  by (simp add: merge_def Let_def merge_fields cong: option.case_cong)
lemma merge_ArgsEscaped_field: "ArgsEscaped (merge p u i) = (if len (Entrypoint u) = 0 \<and> len (Cmd u) = 0 then ArgsEscaped i else ArgsEscaped u)"
  by (simp add: merge_def Let_def merge_fields cong: option.case_cong)
lemma merge_Healthcheck_field: "Healthcheck (merge p u i) = Healthcheck (merge_Healthcheck u i)"
  by (simp add: merge_def Let_def merge_fields merge_Healthcheck_def split: option.splits)
lemma merge_more_field: "Config.more (merge p u i) = Config.more u"
  by (simp add: merge_def Let_def merge_fields cong: option.case_cong)


lemma env_append_prefix: "set acc \<subseteq> set (env_append p acc base)"
proof (induction base arbitrary: acc)
  case Nil show ?case by simp
next
  case (Cons a bs)
  have "set acc \<subseteq> set (acc @ [a])" by auto
  also have "\<dots> \<subseteq> set (env_append p (acc @ [a]) bs)" by (rule Cons.IH)
  finally show ?case using Cons.IH[of acc] by (simp add: Let_def)
qed

lemma name_match_refl: "name_match p a a" by (simp add: name_match_def)

lemma env_append_all_matched:
  assumes "GOOS p = ''windows'' \<longrightarrow> (\<forall>s. ToUpper p (ToUpper p s) = ToUpper p s)" and "b \<in> set base"
  shows "list_ex (name_match p b) (env_append p acc base)"
  using assms(2)
proof (induction base arbitrary: acc)
  case Nil then show ?case by simp
next
  case (Cons a bs)
  show ?case
  proof (cases "b = a")
    case True
    show ?thesis
    proof (cases "list_ex (name_match p a) acc")
      case found: True
      then obtain x where "x \<in> set acc" "name_match p a x" by (auto simp: list_ex_iff)
      moreover have "set acc \<subseteq> set (env_append p acc bs)" by (rule env_append_prefix)
      ultimately show ?thesis using True found
        by (auto simp: env_found_name_match[OF assms(1)] list_ex_iff)
    next
      case new: False
      have "a \<in> set (env_append p (acc @ [a]) bs)" using env_append_prefix[of "acc @ [a]"] by auto
      then show ?thesis using True new
        by (auto simp: env_found_name_match[OF assms(1)] list_ex_iff intro: name_match_refl)
    qed
  next
    case False
    then have "b \<in> set bs" using Cons.prems by simp
    then show ?thesis using Cons.IH by (simp add: Let_def)
  qed
qed

lemma env_append_fixed:
  assumes "GOOS p = ''windows'' \<longrightarrow> (\<forall>s. ToUpper p (ToUpper p s) = ToUpper p s)"
    and "\<forall>b\<in>set base. list_ex (name_match p b) acc"
  shows "env_append p acc base = acc"
  using assms(2)
  by (induction base) (simp_all add: env_found_name_match[OF assms(1)])

lemma env_append_idem:
  assumes "GOOS p = ''windows'' \<longrightarrow> (\<forall>s. ToUpper p (ToUpper p s) = ToUpper p s)"
  shows "env_append p (env_append p acc base) base = env_append p acc base"
  by (rule env_append_fixed[OF assms]) (simp add: env_append_all_matched[OF assms])

lemma env_append_self:
  assumes "GOOS p = ''windows'' \<longrightarrow> (\<forall>s. ToUpper p (ToUpper p s) = ToUpper p s)"
  shows "env_append p base base = base"
  by (rule env_append_fixed[OF assms]) (auto simp: list_ex_iff intro: name_match_refl)

lemma env_append_not_Nil: "acc \<noteq> [] \<Longrightarrow> env_append p acc base \<noteq> []"
  using env_append_prefix[of acc p base] by auto

lemma Env_idem:
  assumes "GOOS p = ''windows'' \<longrightarrow> (\<forall>s. ToUpper p (ToUpper p s) = ToUpper p s)"
  shows "Env (merge p (merge p u i) i) = Env (merge p u i)"
proof (cases "len (Env u) = 0")
  case True
  then show ?thesis
    by (cases "Env i") (auto simp: merge_Env_field len_def elems_def env_append_self[OF assms])
next
  case False
  then obtain us where us: "Env u = Some us" "us \<noteq> []" by (cases "Env u") (auto simp: len_def)
  then show ?thesis
    by (simp add: merge_Env_field len_def elems_def env_append_idem[OF assms] env_append_not_Nil)
qed


lemma merge_Healthcheck_fill:
  "Healthcheck (merge_Healthcheck u i) =
     (case Healthcheck i of
        None \<Rightarrow> Healthcheck u
      | Some ih \<Rightarrow> (case Healthcheck u of
                     None \<Rightarrow> Some ih
                   | Some uh \<Rightarrow> Some (fill_Healthcheck uh ih)))"
  by (simp add: merge_Healthcheck_def fill_Healthcheck_def Let_def split: option.splits)

lemma fill_Healthcheck_idem: "fill_Healthcheck (fill_Healthcheck uh ih) ih = fill_Healthcheck uh ih"
  by (rule HealthConfig.equality) (simp_all add: fill_Healthcheck_def)

lemma fill_Healthcheck_self: "fill_Healthcheck ih ih = ih"
  by (rule HealthConfig.equality) (simp_all add: fill_Healthcheck_def)

lemma Healthcheck_idem: "Healthcheck (merge p (merge p u i) i) = Healthcheck (merge p u i)"
  by (simp add: merge_Healthcheck_field merge_Healthcheck_fill fill_Healthcheck_idem
        fill_Healthcheck_self split: option.splits)

lemma ExposedPorts_idem: "ExposedPorts (merge p (merge p u i) i) = ExposedPorts (merge p u i)"
  by (auto simp: merge_ExposedPorts_field no_keys_def split: option.splits)

lemma Volumes_idem: "Volumes (merge p (merge p u i) i) = Volumes (merge p u i)"
  by (auto simp: merge_Volumes_field no_keys_def split: option.splits)

lemma Labels_idem: "Labels (merge p (merge p u i) i) = Labels (merge p u i)"
  by (auto simp: merge_Labels_field map_add_def fun_eq_iff split: option.splits)

lemma Entrypoint_idem: "Entrypoint (merge p (merge p u i) i) = Entrypoint (merge p u i)"
  by (simp add: merge_Entrypoint_field)

lemma Cmd_idem: "Cmd (merge p (merge p u i) i) = Cmd (merge p u i)"
  by (auto simp: merge_Cmd_field merge_Entrypoint_field len_def)

lemma ArgsEscaped_idem: "ArgsEscaped (merge p (merge p u i) i) = ArgsEscaped (merge p u i)"
  by (auto simp: merge_ArgsEscaped_field merge_Cmd_field merge_Entrypoint_field len_def)

text \<open>
  Claim C4, as amended. The entry point is inherited from the image exactly when the
  user's entry point is \<open>nil\<close>; the command and the arguments-already-escaped flag
  are inherited exactly when the user's entry point and command are both empty
  (\<open>nil\<close> or of length zero). So a user configuration with a \<open>nil\<close> entry point and
  an empty command inherits entry point, command and flag together.
\<close>

theorem merge_Entrypoint_Cmd_rule:
  "Entrypoint (merge p userConf imageConf) =
     (if Entrypoint userConf = None then Entrypoint imageConf else Entrypoint userConf)
   \<and> Cmd (merge p userConf imageConf) =
     (if len (Entrypoint userConf) = 0 \<and> len (Cmd userConf) = 0
      then Cmd imageConf else Cmd userConf)
   \<and> ArgsEscaped (merge p userConf imageConf) =
     (if len (Entrypoint userConf) = 0 \<and> len (Cmd userConf) = 0
      then ArgsEscaped imageConf else ArgsEscaped userConf)"
  by (simp only: merge_Entrypoint_field merge_Cmd_field merge_ArgsEscaped_field simp_thms)

theorem merge_Entrypoint_Cmd_rule_witness:
  "Entrypoint (merge linux empty_Config image_sh) = Some [''sh'']
   \<and> Cmd (merge linux empty_Config image_sh) = Some [''-c'', ''echo hi'']
   \<and> ArgsEscaped (merge linux empty_Config image_sh) = True"
  using merge_Entrypoint_Cmd_rule[of linux empty_Config image_sh]
  by (simp add: empty_Config_def image_sh_def len_def)

text \<open>
  Claim C4 as stated fails: a user who gives only a command inherits the image's entry
  point and keeps the own command, and a user who gives an empty, non-\<open>nil\<close> entry
  point and no command inherits the image's command and keeps the empty entry point.
\<close>

theorem merge_inherits_one_without_the_other:
  "Entrypoint (merge linux user_cmd_only image_sh) = Some [''sh'']
   \<and> Cmd (merge linux user_cmd_only image_sh) = Some [''ls'']
   \<and> Entrypoint (merge linux user_cleared_entrypoint image_sh) = Some []
   \<and> Cmd (merge linux user_cleared_entrypoint image_sh) = Some [''-c'', ''echo hi'']"
  by (simp add: merge_Entrypoint_field merge_Cmd_field user_cmd_only_def image_sh_def
        user_cleared_entrypoint_def empty_Config_def len_def)

text \<open>
  Claim C6, as amended. The user's environment entries are kept unchanged and in
  order. If the user list is empty the result is the image's list as it is; otherwise
  the image entries appended, in image order, are exactly those whose name matches
  neither a user entry's name nor the name of an image entry before them. Names are
  compared after upper-casing on Windows and as they are elsewhere. The upper-casing
  is taken to be idempotent, as \<open>strings.ToUpper\<close> is.
\<close>

theorem merge_Env_rule:
  assumes "GOOS p = ''windows'' \<longrightarrow> (\<forall>s. ToUpper p (ToUpper p s) = ToUpper p s)"
  shows "Env (merge p userConf imageConf) =
           (if len (Env userConf) = 0 then Env imageConf
            else Some (elems (Env userConf)
                       @ kept_base p (elems (Env userConf)) (elems (Env imageConf))))"
  by (simp add: merge_Env_field env_append_kept_base[OF assms])

theorem merge_Env_rule_witness:
  "Env (merge linux user_A image_AB) = Some [''A=1'', ''B=3'']
   \<and> Env (merge windows user_path image_path) = Some [''Path=C:/bin'', ''TEMP=C:/tmp'']
   \<and> Env (merge linux user_path image_path)
       = Some [''Path=C:/bin'', ''PATH=C:/windows'', ''TEMP=C:/tmp'', ''temp=D:/tmp'']"
proof -
  have l: "GOOS linux = ''windows'' \<longrightarrow> (\<forall>s. ToUpper linux (ToUpper linux s) = ToUpper linux s)"
    by (simp add: linux_def)
  have w: "GOOS windows = ''windows'' \<longrightarrow> (\<forall>s. ToUpper windows (ToUpper windows s) = ToUpper windows s)"
    by (simp add: windows_def upper_char_idem)
  show ?thesis
    using merge_Env_rule[OF l, of user_A image_AB] merge_Env_rule[OF w, of user_path image_path]
      merge_Env_rule[OF l, of user_path image_path]
    by (simp add: user_A_def image_AB_def user_path_def image_path_def empty_Config_def len_def
          elems_def kept_base_def name_match_def fold_case_def env_name_def linux_def
          windows_def upper_char_def Let_def)
qed

text \<open>
  Claim C6 as stated fails: with the user list \<open>["A=1"]\<close> and the image list
  \<open>["B=2", "B=3"]\<close>, neither image entry's name matches a user entry's name, yet
  only the first of them is appended.
\<close>

theorem merge_Env_skips_repeated_base_name:
  "Env (merge linux user_A image_BB) = Some [''A=1'', ''B=2'']
   \<and> elems (Env user_A) @ unmatched_base linux (elems (Env user_A)) (elems (Env image_BB))
       = [''A=1'', ''B=2'', ''B=3'']"
  by (simp add: merge_Env_field user_A_def image_BB_def empty_Config_def len_def elems_def
        unmatched_base_def name_match_def fold_case_def env_name_def linux_def Let_def)

text \<open>
  Claim C10. Merging the result of a merge with the same image configuration again
  changes nothing. The upper-casing is taken to be idempotent, as
  \<open>strings.ToUpper\<close> is.
\<close>

theorem merge_idempotent:
  assumes "GOOS p = ''windows'' \<longrightarrow> (\<forall>s. ToUpper p (ToUpper p s) = ToUpper p s)"
  shows "merge p (merge p userConf imageConf) imageConf = merge p userConf imageConf"
  by (rule Config.equality)
     (simp_all add: Env_idem[OF assms] Healthcheck_idem ExposedPorts_idem Volumes_idem
        Labels_idem Entrypoint_idem Cmd_idem ArgsEscaped_idem
        merge_User_field merge_WorkingDir_field merge_StopSignal_field merge_more_field)

theorem merge_idempotent_witness:
  "merge windows (merge windows user_path image_path) image_path
     = merge windows user_path image_path
   \<and> Env (merge windows user_path image_path) = Some [''Path=C:/bin'', ''TEMP=C:/tmp'']
   \<and> User (merge windows user_path image_path) = ''root''"
proof -
  have w: "GOOS windows = ''windows'' \<longrightarrow> (\<forall>s. ToUpper windows (ToUpper windows s) = ToUpper windows s)"
    by (simp add: windows_def upper_char_idem)
  show ?thesis
    using merge_idempotent[OF w, of user_path image_path]
    by (simp add: merge_Env_field merge_User_field user_path_def image_path_def
          empty_Config_def len_def elems_def windows_def upper_char_def Let_def)
qed

section \<open>Properties of the diff materialization\<close>

lemmas demo_defs = demo_diff_def fail_write_def fail_scan_def fail_mkdir_def fail_rename_def
  other_diff_def demo_stream_def empty_stream_def dirs_stream_def no_reference_def
  busy_world_def empty_world_def

lemmas diff_defs = downloadDiff_def compressDiffToTmpFile_def io_Copy_def os_Open_def
  os_MkdirAll_def os_Rename_def os_Remove_def path_Join_def Let_def

lemma compress_Inr:
  assumes "compressDiffToTmpFile D rc cid w = (Inr (tmp, d, b), w1)"
  shows "TempFile D cid = Inr tmp \<and> d = sha256 D (payload rc)
         \<and> b = sha256 D (gzip D (payload rc))
         \<and> w1 = w\<lparr>files := (files w)(tmp \<mapsto> gzip D (payload rc))\<rparr>"
  using assms
  by (auto simp: compressDiffToTmpFile_def Let_def split: sum.splits option.splits)

lemma compress_Inl:
  assumes "compressDiffToTmpFile D rc cid w = (Inl e, w1)"
  shows "(TempFile D cid = Inl e \<and> w1 = w)
         \<or> (\<exists>tmp. TempFile D cid = Inr tmp \<and> w1 = w\<lparr>files := (files w)(tmp := None)\<rparr>)"
  using assms
  by (auto simp: compressDiffToTmpFile_def Let_def os_Remove_def split: sum.splits option.splits)

lemma scan_headers_sum: "scan_headers a xs t = Inr s \<Longrightarrow> s = a + sum_list xs"
proof (induction xs arbitrary: a)
  case Nil
  then show ?case by (cases t) simp_all
next
  case (Cons x xs)
  show ?case using Cons.IH[of "a + x"] Cons.prems by (simp add: add.assoc)
qed

lemma sum_list_sint: "word_of_int (sum_list (map sint xs)) = (sum_list xs :: 64 word)"
  by (induction xs) simp_all

lemma zero_total: "sum_list (map sint xs) = 0 \<Longrightarrow> sum_list xs = (0 :: 64 word)"
  using sum_list_sint[of xs] by simp

lemma downloadDiff_after_compress:
  assumes "compressDiffToTmpFile D rc cid w = (Inr (tmp, d, b), w1)"
  shows "downloadDiff D rc cid opts w =
     (case os_Open D tmp w1 of
        Inl err \<Rightarrow> (Inl err, os_Remove tmp w1)
      | Inr layerFile \<Rightarrow>
          (case gzip_NewReader D layerFile of
             Inl err \<Rightarrow> (Inl err, os_Remove tmp w1)
           | Inr decompressed \<Rightarrow>
               (case scan_headers 0 (fst (tar_Headers D decompressed))
                       (snd (tar_Headers D decompressed)) of
                  Inl err \<Rightarrow> (Inl err, os_Remove tmp w1)
                | Inr layerSize \<Rightarrow>
                    (case os_MkdirAll D (path_Join (DestinationDirectory D opts)
                                           (GenerateRandomID D)) w1 of
                       (Some err, w2) \<Rightarrow> (Inl err, os_Remove tmp w2)
                     | (None, w2) \<Rightarrow>
                         (case os_Rename D tmp
                                 (path_Join (path_Join (DestinationDirectory D opts)
                                               (GenerateRandomID D))
                                    (GenerateRandomID D @ ''.tar'')) w2 of
                            (Some err, w3) \<Rightarrow> (Inl err, os_Remove tmp w3)
                          | (None, w3) \<Rightarrow>
                              (Inr \<lparr>ID = [], Parent = [], Image = None,
                                    DiffID = (if layerSize = 0 then DigestSHA256EmptyTar
                                              else NewDigestFromBytes d),
                                    Layer_BlobSum = NewDigestFromBytes b,
                                    Meta = [], Size = layerSize\<rparr>, w3))))))"
  by (simp add: downloadDiff_def assms Let_def split: sum.splits)

text \<open>
  Claim C8. When \<open>downloadDiff\<close> returns an error after the temporary file has been
  created, the files afterwards are the files before the call without the temporary
  file: the temporary file is gone and no file has appeared at any other path, the
  layer's final path included. (\<open>os.Remove\<close> is taken to succeed.)
\<close>

theorem downloadDiff_failure_cleans_up:
  assumes "TempFile D containerID = Inr tmp"
    and "downloadDiff D rc containerID options w = (Inl err, w')"
  shows "files w' = (files w)(tmp := None)"
proof (cases "compressDiffToTmpFile D rc containerID w")
  case (Pair r w1)
  show ?thesis
  proof (cases r)
    case (Inl e)
    with Pair assms(2) have "e = err" "w1 = w'"
      by (simp_all add: downloadDiff_def)
    with compress_Inl[of D rc containerID w e w1] Pair Inl assms(1) show ?thesis
      by auto
  next
    case (Inr t)
    obtain tmp' d b where t: "t = (tmp', d, b)" by (cases t)
    from compress_Inr[of D rc containerID w tmp' d b w1] Pair Inr t assms(1)
    have tmp: "tmp' = tmp" and w1: "w1 = w\<lparr>files := (files w)(tmp \<mapsto> gzip D (payload rc))\<rparr>"
      by auto
    have c: "compressDiffToTmpFile D rc containerID w = (Inr (tmp, d, b), w1)"
      using Pair Inr t tmp by simp
    show ?thesis
      using assms(2) unfolding downloadDiff_after_compress[OF c]
      by (auto simp: w1 os_Remove_def os_MkdirAll_def os_Rename_def
            split: sum.splits option.splits prod.splits)
  qed
qed

theorem downloadDiff_failure_cleans_up_witness:
  "fst (downloadDiff fail_rename demo_stream ''c1'' no_reference busy_world)
     = Inl (LibError ''rename failed'')
   \<and> files (snd (downloadDiff fail_rename demo_stream ''c1'' no_reference busy_world))
     = [''/images/old/old.tar'' \<mapsto> [7]]
   \<and> fst (downloadDiff fail_write demo_stream ''c1'' no_reference busy_world)
     = Inl (LibError ''no space left on device'')
   \<and> files (snd (downloadDiff fail_write demo_stream ''c1'' no_reference busy_world))
     = [''/images/old/old.tar'' \<mapsto> [7]]
   \<and> fst (downloadDiff fail_scan demo_stream ''c1'' no_reference busy_world)
     = Inl (LibError ''unexpected EOF'')
   \<and> files (snd (downloadDiff fail_scan demo_stream ''c1'' no_reference busy_world))
     = [''/images/old/old.tar'' \<mapsto> [7]]
   \<and> fst (downloadDiff fail_mkdir demo_stream ''c1'' no_reference busy_world)
     = Inl (LibError ''permission denied'')
   \<and> files (snd (downloadDiff fail_mkdir demo_stream ''c1'' no_reference busy_world))
     = [''/images/old/old.tar'' \<mapsto> [7]]"
proof -
  have t: "TempFile fail_rename ''c1'' = Inr ''/tmp/c1''" "TempFile fail_write ''c1'' = Inr ''/tmp/c1''"
    "TempFile fail_scan ''c1'' = Inr ''/tmp/c1''" "TempFile fail_mkdir ''c1'' = Inr ''/tmp/c1''"
    by (simp_all add: demo_defs)
  have r: "fst (downloadDiff fail_rename demo_stream ''c1'' no_reference busy_world)
             = Inl (LibError ''rename failed'')"
    by (simp add: demo_defs diff_defs)
  have wr: "fst (downloadDiff fail_write demo_stream ''c1'' no_reference busy_world)
             = Inl (LibError ''no space left on device'')"
    by (simp add: demo_defs diff_defs)
  have s: "fst (downloadDiff fail_scan demo_stream ''c1'' no_reference busy_world)
             = Inl (LibError ''unexpected EOF'')"
    by (simp add: demo_defs diff_defs)
  have m: "fst (downloadDiff fail_mkdir demo_stream ''c1'' no_reference busy_world)
             = Inl (LibError ''permission denied'')"
    by (simp add: demo_defs diff_defs)
  have old: "files busy_world = [''/images/old/old.tar'' \<mapsto> [7]]"
    by (simp add: demo_defs)
  have fresh: "[''/images/old/old.tar'' \<mapsto> [7::8 word]](''/tmp/c1'' := None)
                 = [''/images/old/old.tar'' \<mapsto> [7]]"
    by (simp add: fun_eq_iff)
  show ?thesis
    using downloadDiff_failure_cleans_up[OF t(1) surjective_pairing[of "downloadDiff fail_rename demo_stream ''c1'' no_reference busy_world", unfolded r]]
      downloadDiff_failure_cleans_up[OF t(2) surjective_pairing[of "downloadDiff fail_write demo_stream ''c1'' no_reference busy_world", unfolded wr]]
      downloadDiff_failure_cleans_up[OF t(3) surjective_pairing[of "downloadDiff fail_scan demo_stream ''c1'' no_reference busy_world", unfolded s]]
      downloadDiff_failure_cleans_up[OF t(4) surjective_pairing[of "downloadDiff fail_mkdir demo_stream ''c1'' no_reference busy_world", unfolded m]]
    by (simp add: r wr s m old fresh)
qed

text \<open>
  Claim C5. When \<open>downloadDiff\<close> succeeds on an archive that has no entry, or whose
  entry sizes sum to zero, the layer's \<open>DiffID\<close> is the empty-tar digest constant,
  whatever the hash of the stream was.
\<close>

theorem empty_archive_diffID:
  assumes "downloadDiff D rc containerID options w = (Inr lm, w')"
    and "gzip_NewReader D (gzip D (payload rc)) = Inr archive"
    and "fst (tar_Headers D archive) = []
         \<or> sum_list (map sint (fst (tar_Headers D archive))) = 0"
  shows "DiffID lm = DigestSHA256EmptyTar"
proof (cases "compressDiffToTmpFile D rc containerID w")
  case (Pair r w1)
  show ?thesis
  proof (cases r)
    case (Inl e)
    with Pair assms(1) show ?thesis by (simp add: downloadDiff_def)
  next
    case (Inr t)
    obtain tmp d b where t: "t = (tmp, d, b)" by (cases t)
    have c: "compressDiffToTmpFile D rc containerID w = (Inr (tmp, d, b), w1)"
      using Pair Inr t by simp
    from compress_Inr[OF c]
    have w1: "w1 = w\<lparr>files := (files w)(tmp \<mapsto> gzip D (payload rc))\<rparr>" by simp
    have total: "sum_list (fst (tar_Headers D archive)) = 0"
      using assms(3) zero_total by auto
    have size0: "\<And>s. scan_headers 0 (fst (tar_Headers D archive))
                       (snd (tar_Headers D archive)) = Inr s \<Longrightarrow> s = 0"
      using scan_headers_sum total by fastforce
    show ?thesis
      using assms(1) assms(2) size0 unfolding downloadDiff_after_compress[OF c]
      by (auto simp: w1 os_Open_def os_MkdirAll_def os_Rename_def
            split: sum.splits option.splits prod.splits)
  qed
qed

theorem empty_archive_diffID_witness:
  "map_sum id DiffID (fst (downloadDiff demo_diff empty_stream ''c1'' no_reference empty_world))
     = Inr DigestSHA256EmptyTar
   \<and> map_sum id DiffID (fst (downloadDiff demo_diff dirs_stream ''c1'' no_reference empty_world))
     = Inr DigestSHA256EmptyTar"
proof -
  have "\<exists>lm. fst (downloadDiff demo_diff empty_stream ''c1'' no_reference empty_world) = Inr lm"
    by (simp add: demo_defs diff_defs)
  then obtain lm where e: "downloadDiff demo_diff empty_stream ''c1'' no_reference empty_world
      = (Inr lm, snd (downloadDiff demo_diff empty_stream ''c1'' no_reference empty_world))"
    by (auto simp: prod_eq_iff)
  have "\<exists>lm. fst (downloadDiff demo_diff dirs_stream ''c1'' no_reference empty_world) = Inr lm"
    by (simp add: demo_defs diff_defs)
  then obtain lm' where d: "downloadDiff demo_diff dirs_stream ''c1'' no_reference empty_world
      = (Inr lm', snd (downloadDiff demo_diff dirs_stream ''c1'' no_reference empty_world))"
    by (auto simp: prod_eq_iff)
  have ea: "gzip_NewReader demo_diff (gzip demo_diff (payload empty_stream)) = Inr []"
    by (simp add: demo_defs)
  have da: "gzip_NewReader demo_diff (gzip demo_diff (payload dirs_stream)) = Inr [0, 0]"
    by (simp add: demo_defs)
  have ez: "fst (tar_Headers demo_diff []) = []
            \<or> sum_list (map sint (fst (tar_Headers demo_diff []))) = 0"
    by (simp add: demo_defs)
  have dz: "fst (tar_Headers demo_diff [0, 0]) = []
            \<or> sum_list (map sint (fst (tar_Headers demo_diff [0, 0]))) = 0"
    by (simp add: demo_defs)
  show ?thesis
    using empty_archive_diffID[OF e ea ez] empty_archive_diffID[OF d da dz] e d
    by (metis fst_conv map_sum.simps(2))
qed

text \<open>
  Claim C9. Two successful runs of \<open>compressDiffToTmpFile\<close> on streams with the same
  bytes, with the same hash and compressor, give the same \<open>diffID\<close> and \<open>blobSum\<close>
  digests, whatever the container IDs, the temporary file names and the worlds of the
  two runs are; in particular for every non-empty stream.
\<close>

theorem digest_pipeline_deterministic:
  assumes "compressDiffToTmpFile D rc containerID w = (Inr (tmp, diffIDSum, gzSum), w1)"
    and "compressDiffToTmpFile D' rc' containerID' w' = (Inr (tmp', diffIDSum', gzSum'), w1')"
    and "payload rc' = payload rc" and "sha256 D' = sha256 D" and "gzip D' = gzip D"
  shows "NewDigestFromBytes diffIDSum' = NewDigestFromBytes diffIDSum
         \<and> NewDigestFromBytes gzSum' = NewDigestFromBytes gzSum"
  using compress_Inr[OF assms(1)] compress_Inr[OF assms(2)] assms(3-5) by simp

theorem digest_pipeline_deterministic_witness:
  "fst (compressDiffToTmpFile demo_diff demo_stream ''c1'' empty_world)
     = Inr (''/tmp/c1'', [3], [5])
   \<and> fst (compressDiffToTmpFile other_diff demo_stream ''c2'' busy_world)
     = Inr (''/var/tmp/c2'', [3], [5])
   \<and> NewDigestFromBytes [3] = ''sha256:03'' \<and> NewDigestFromBytes [5] = ''sha256:05''"
proof -
  have a: "fst (compressDiffToTmpFile demo_diff demo_stream ''c1'' empty_world)
             = Inr (''/tmp/c1'', [3], [5])"
    by (simp add: demo_defs diff_defs)
  have b: "fst (compressDiffToTmpFile other_diff demo_stream ''c2'' busy_world)
             = Inr (''/var/tmp/c2'', [3], [5])"
    by (simp add: demo_defs diff_defs)
  have h: "NewDigestFromBytes [3] = ''sha256:03''" "NewDigestFromBytes [5] = ''sha256:05''"
    by (simp_all add: NewDigestFromBytes_def hex_byte_def)
  have eqs: "payload demo_stream = payload demo_stream" "sha256 other_diff = sha256 demo_diff"
    "gzip other_diff = gzip demo_diff"
    by (simp_all add: demo_defs)
  show ?thesis
    using digest_pipeline_deterministic[OF
        surjective_pairing[of "compressDiffToTmpFile demo_diff demo_stream ''c1'' empty_world", unfolded a]
        surjective_pairing[of "compressDiffToTmpFile other_diff demo_stream ''c2'' busy_world", unfolded b]
        eqs] a b h
    by simp
qed

section \<open>Properties of the commit\<close>

lemmas commit_defs = Commit_def Commit_prepare_def Commit_layer_def Commit_publish_def
  setLayerConfig_def getImagec_def LayerCache_Add_def LayerCache_Commit_def
  ImageCache_Add_def ImageCache_Save_def UpdateRepositoryCache_def WriteImageBlob_def
  ioutil_WriteFile_def Log_def

lemmas commit_demo_defs = demo_env_def running_env_def failing_env_def plain_commit_def
  tagged_commit_def demo_container_def

lemma chain_walk_returns:
  assumes "chain_walk c scratch pl lm layers = Some r"
  shows "pl = scratch \<or> c pl = None"
proof (rule chain_walk.raw_induct[where P = "\<lambda>c scratch pl lm layers r. pl = scratch \<or> c pl = None", OF _ assms])
  fix walk c scratch pl lm layers r
  assume IH: "\<And>c scratch pl lm layers r. walk c scratch pl lm layers = Some r \<Longrightarrow> pl = scratch \<or> c pl = None"
    and step: "(if pl = scratch then Some (Inr (lm, layers))
      else (case LayerCache_Get c pl of
              Inl err \<Rightarrow>
                Some (Inl (InternalServerError
                  (''Failed to get parent image layer '' @ pl @ '': '' @ Error err)))
            | Inr lm' \<Rightarrow> walk c scratch pl lm' (layers @ [lm']))) = Some r"
  show "pl = scratch \<or> c pl = None"
  proof (cases "pl = scratch")
    case True then show ?thesis by simp
  next
    case False
    show ?thesis
    proof (cases "c pl")
      case None then show ?thesis by simp
    next
      case (Some l)
      with False step have "walk c scratch pl l (layers @ [l]) = Some r"
        by (simp add: LayerCache_Get_def)
      from IH[OF this] show ?thesis .
    qed
  qed
qed

text \<open>
  Claim C1. The claim asks that the walk from \<open>L3\<close> over \<open>L2\<close> and \<open>L1\<close> ends at
  scratch with the chain \<open>[L3, L2, L1]\<close>. In the code the walk returns only when
  its first parent is the scratch sentinel or is missing from the cache
  (\<open>chain_walk_returns\<close>): started at \<open>L3\<close> it looks \<open>L2\<close> up again and again
  and does not return, while started at \<open>L1\<close> it returns \<open>[L1]\<close> at once.
\<close>

theorem chain_walk_never_advances:
  "chain_walk three_layers ''scratch'' (Parent (layer ''L3'' ''L2'')) (layer ''L3'' ''L2'')
     [layer ''L3'' ''L2''] = None
   \<and> chain_walk three_layers ''scratch'' (Parent (layer ''L1'' ''scratch''))
       (layer ''L1'' ''scratch'') [layer ''L1'' ''scratch'']
     = Some (Inr (layer ''L1'' ''scratch'', [layer ''L1'' ''scratch'']))"
proof -
  have "chain_walk three_layers ''scratch'' ''L2'' (layer ''L3'' ''L2'') [layer ''L3'' ''L2'']
          = None"
  proof (cases "chain_walk three_layers ''scratch'' ''L2'' (layer ''L3'' ''L2'')
                  [layer ''L3'' ''L2'']")
    case None
    then show ?thesis .
  next
    case (Some r)
    from chain_walk_returns[OF Some] show ?thesis
      by (simp add: three_layers_def)
  qed
  then show ?thesis
    by (simp add: layer_def chain_walk.simps)
qed

text \<open>
  Claim C7. When the container is in the cache and its inspection shows it running or
  restarting, \<open>Commit\<close> returns a conflict error and leaves the world as it was: no
  file or directory is written, no export stream is opened, no cache is changed and no
  event is logged.
\<close>

theorem Commit_rejects_running:
  assumes "GetContainer E name = Some vc"
    and "ContainerInspect E name = Inr (IsContainerJSON container)"
    and "State_Running container \<or> State_Restarting container"
  shows "Commit E name config w =
           Some (Returned (Inl (ConflictError
                   (ProductName E @ '' does not support commit of a running container''))), w)"
  using assms by (auto simp: Commit_def Commit_prepare_def)

theorem Commit_rejects_running_witness:
  "Commit running_env ''c1'' plain_commit busy_world =
     Some (Returned (Inl (ConflictError
             ''vic does not support commit of a running container'')), busy_world)"
proof -
  have g: "GetContainer running_env ''c1''
             = Some \<lparr>ContainerID = ''c1'', LayerID = ''L0'', vc_ImageID = ''img0''\<rparr>"
    by (simp add: commit_demo_defs)
  have i: "ContainerInspect running_env ''c1''
             = Inr (IsContainerJSON (demo_container\<lparr>State_Running := True\<rparr>))"
    by (simp add: commit_demo_defs)
  have r: "State_Running (demo_container\<lparr>State_Running := True\<rparr>)
           \<or> State_Restarting (demo_container\<lparr>State_Running := True\<rparr>)"
    by simp
  show ?thesis
    using Commit_rejects_running[OF g i r, of plain_commit busy_world]
    by (simp add: commit_demo_defs)
qed

text \<open>
  Claim C2. The claim asks that \<open>Commit\<close> returns the error of \<open>downloadDiff\<close>. In
  the code that error is overwritten unread; with the rename failing,
  \<open>downloadDiff\<close> returns the error and a \<open>nil\<close> layer, \<open>Commit\<close> goes on to
  \<open>setLayerConfig\<close>, and the call panics there instead of returning.
\<close>

theorem Commit_panics_on_downloadDiff_error:
  "fst (downloadDiff (Diff failing_env) demo_stream ''c1'' no_reference
          (empty_world\<lparr>exports := [''c1'']\<rparr>)) = Inl (LibError ''rename failed'')
   \<and> map_option fst (Commit failing_env ''c1'' plain_commit empty_world) = Some Panicked"
  by (simp add: commit_demo_defs commit_defs demo_defs diff_defs merge_def)

text \<open>
  Claim C3. The claim asks that a commit with a repo and tag registers the reference
  and puts it into the event. In the code \<open>getImagec\<close> hands back an \<open>ImageC\<close>
  without reference even when repo and tag are given; the last part of \<open>Commit\<close>
  run with it succeeds, leaves the repository cache empty and logs one event whose
  \<open>refName\<close> is empty.
\<close>

theorem getImagec_drops_reference:
  "WithTag demo_env ''myrepo'' ''v1'' = Inr ''myrepo:v1''
   \<and> getImagec demo_env tagged_commit = Inr (NewImageC demo_env no_reference)
   \<and> fst (Commit_publish demo_env (NewImageC demo_env no_reference) (layer ''L1'' ''scratch'')
            [layer ''L1'' ''scratch''] empty_world) = Inr ''sha256:img1''
   \<and> repo_cache (snd (Commit_publish demo_env (NewImageC demo_env no_reference)
            (layer ''L1'' ''scratch'') [layer ''L1'' ''scratch''] empty_world)) = Map.empty
   \<and> map actor_refName (events (snd (Commit_publish demo_env (NewImageC demo_env no_reference)
            (layer ''L1'' ''scratch'') [layer ''L1'' ''scratch''] empty_world))) = [[]]"
  by (simp add: commit_demo_defs commit_defs demo_defs)

end
